theory Spec2Isabelle
  imports Complex_Main
begin

section \<open>The slide downloader \<^verbatim>\<open>slideslive-slides-dl.py\<close>, embedded\<close>

text \<open>
  The functions of the script resolve a video id from a URL, fetch the slide metadata (a
  JSON manifest, with an XML manifest as fallback), download one image per slide and write
  an ffmpeg concat playlist. Each function is a definition of the same name here.
  The outside world is explicit:
  \<^item> the file system, the requests made and the lines printed are fields of \<open>world\<close>;
  \<^item> what the network answers, and what \<^verbatim>\<open>json.load\<close> and
    \<^verbatim>\<open>ElementTree.parse\<close> make of a file's text, are fields of \<open>env\<close>;
  \<^item> an exception is an \<open>error\<close>; a function that can raise returns \<open>error + 'a\<close>
    together with the world it leaves behind.
\<close>

subsection \<open>Python values and exceptions\<close>

text \<open>
  The values \<^verbatim>\<open>json.load\<close> and \<^verbatim>\<open>Element.text\<close> give, and the float that
  \<^verbatim>\<open>row['time']/1000\<close> computes. A float is held as the rational number it stands
  for: division by 1000 is exact here, while Python rounds to the nearest double. Manifests
  with fractional number literals are outside the model.
\<close>

datatype pyval =
    PNone
  | PBool bool
  | PInt int
  | PFloat rat
  | PStr string
  | PList "pyval list"
  | PDict "(string \<times> pyval) list"

text \<open>
  \<open>Unmodelled\<close> is no Python exception: it marks a run that leaves the model (the text of
  a float, list or dict; a format template with braces of its own; \<^verbatim>\<open>int\<close> of a
  string). No handler catches it.
\<close>

datatype error =
    KeyError
  | TypeError
  | ValueError
  | HTTPError nat
  | RequestError
  | OSError
  | JSONDecodeError
  | ParseError
  | NameError
  | SystemExit
  | Unmodelled

text \<open>\<^verbatim>\<open>except Exception\<close> lets \<^verbatim>\<open>SystemExit\<close> through; a bare \<^verbatim>\<open>except:\<close> does not.\<close>

fun caught_by_except_Exception :: "error \<Rightarrow> bool" where
  "caught_by_except_Exception SystemExit = False"
| "caught_by_except_Exception Unmodelled = False"
| "caught_by_except_Exception e = True"

fun caught_by_bare_except :: "error \<Rightarrow> bool" where
  "caught_by_bare_except Unmodelled = False"
| "caught_by_bare_except e = True"

subsection \<open>Text of values\<close>

definition digit_char :: "nat \<Rightarrow> char" where
  "digit_char d = ''0123456789'' ! (d mod 10)"

fun str_nat :: "nat \<Rightarrow> string" where
  "str_nat n = (if n < 10 then [digit_char n] else str_nat (n div 10) @ [digit_char n])"

definition str_int :: "int \<Rightarrow> string" where
  "str_int i = (if i < 0 then CHR ''-'' # str_nat (nat (- i)) else str_nat (nat i))"

text \<open>\<^verbatim>\<open>'{}'.format(v)\<close>, that is \<^verbatim>\<open>str(v)\<close>.\<close>

fun py_str :: "pyval \<Rightarrow> error + string" where
  "py_str PNone = Inr ''None''"
| "py_str (PBool b) = Inr (if b then ''True'' else ''False'')"
| "py_str (PInt i) = Inr (str_int i)"
| "py_str (PStr s) = Inr s"
| "py_str (PFloat r) = Inl Unmodelled"
| "py_str (PList xs) = Inl Unmodelled"
| "py_str (PDict kvs) = Inl Unmodelled"

subsection \<open>Operators on values\<close>

text \<open>\<^verbatim>\<open>d[key]\<close> with a string key: only a dict has one.\<close>

fun py_getitem :: "pyval \<Rightarrow> string \<Rightarrow> error + pyval" where
  "py_getitem (PDict kvs) k = (case map_of kvs k of None \<Rightarrow> Inl KeyError | Some v \<Rightarrow> Inr v)"
| "py_getitem v k = Inl TypeError"

text \<open>\<^verbatim>\<open>for x in v\<close>: a list gives its items, a dict its keys, a string its characters.\<close>

fun py_iter :: "pyval \<Rightarrow> error + pyval list" where
  "py_iter (PList xs) = Inr xs"
| "py_iter (PDict kvs) = Inr (map (\<lambda>kv. PStr (fst kv)) kvs)"
| "py_iter (PStr s) = Inr (map (\<lambda>c. PStr [c]) s)"
| "py_iter v = Inl TypeError"

text \<open>\<^verbatim>\<open>a + b\<close>; a bool counts as 0 or 1.\<close>

fun py_add :: "pyval \<Rightarrow> pyval \<Rightarrow> error + pyval" where
  "py_add (PStr a) (PStr b) = Inr (PStr (a @ b))"
| "py_add (PList a) (PList b) = Inr (PList (a @ b))"
| "py_add (PInt a) (PInt b) = Inr (PInt (a + b))"
| "py_add (PInt a) (PBool b) = Inr (PInt (a + of_bool b))"
| "py_add (PBool a) (PInt b) = Inr (PInt (of_bool a + b))"
| "py_add (PBool a) (PBool b) = Inr (PInt (of_bool a + of_bool b))"
| "py_add (PFloat a) (PFloat b) = Inr (PFloat (a + b))"
| "py_add (PFloat a) (PInt b) = Inr (PFloat (a + of_int b))"
| "py_add (PInt a) (PFloat b) = Inr (PFloat (of_int a + b))"
| "py_add (PFloat a) (PBool b) = Inr (PFloat (a + of_bool b))"
| "py_add (PBool a) (PFloat b) = Inr (PFloat (of_bool a + b))"
| "py_add a b = Inl TypeError"

text \<open>\<^verbatim>\<open>v / 1000\<close>, true division by an int constant.\<close>

fun py_truediv :: "pyval \<Rightarrow> int \<Rightarrow> error + pyval" where
  "py_truediv (PInt a) k = Inr (PFloat (of_int a / of_int k))"
| "py_truediv (PBool a) k = Inr (PFloat (of_bool a / of_int k))"
| "py_truediv (PFloat a) k = Inr (PFloat (a / of_int k))"
| "py_truediv v k = Inl TypeError"

text \<open>\<^verbatim>\<open>v - n\<close> with an int \<open>n\<close>.\<close>

fun py_sub :: "pyval \<Rightarrow> int \<Rightarrow> error + pyval" where
  "py_sub (PInt a) n = Inr (PInt (a - n))"
| "py_sub (PBool a) n = Inr (PInt (of_bool a - n))"
| "py_sub (PFloat a) n = Inr (PFloat (a - of_int n))"
| "py_sub v n = Inl TypeError"

text \<open>\<^verbatim>\<open>int(v)\<close>: a float is truncated towards zero.\<close>

definition trunc :: "rat \<Rightarrow> int" where
  "trunc r = (if 0 \<le> r then \<lfloor>r\<rfloor> else \<lceil>r\<rceil>)"

fun py_int :: "pyval \<Rightarrow> error + int" where
  "py_int (PInt a) = Inr a"
| "py_int (PBool a) = Inr (of_bool a)"
| "py_int (PFloat a) = Inr (trunc a)"
| "py_int (PStr s) = Inl Unmodelled"
| "py_int v = Inl TypeError"

subsection \<open>The world\<close>

datatype fsnode = File string | Dir

text \<open>A line of standard output, by the \<^verbatim>\<open>print\<close> call that writes it.\<close>

datatype logline =
    MsgNotUrl string
  | MsgIsFile string
  | MsgJsonFailed
  | MsgDownloading string
  | MsgSkipping error
  | MsgFallback

text \<open>
  Paths are keys as the script writes them, relative to the working directory: the model
  does not resolve \<^verbatim>\<open>.\<close>, \<^verbatim>\<open>..\<close>, repeated slashes or links, and has no permissions.
  \<open>fetched\<close> lists the URLs given to \<^verbatim>\<open>requests.get\<close>, oldest first.
\<close>

record world =
  fs :: "string \<Rightarrow> fsnode option"
  fetched :: "string list"
  stdout :: "logline list"

datatype response = Response nat string | NoResponse

text \<open>
  \<open>net url\<close> is what \<^verbatim>\<open>requests.get(url, headers=headers)\<close> gives: a response with its
  final status and body, or \<open>NoResponse\<close> when the call raises. \<open>json_load\<close> and
  \<open>xml_parse\<close> are the two library parsers on a file's text, \<open>None\<close> when they raise.
\<close>

datatype xml = Element (tag: string) (elem_text: "string option") (children: "xml list")

record env =
  net :: "string \<Rightarrow> response"
  json_load :: "string \<Rightarrow> pyval option"
  xml_parse :: "string \<Rightarrow> xml option"

type_synonym 'a io = "world \<Rightarrow> (error + 'a) \<times> world"

definition ret :: "'a \<Rightarrow> 'a io" where
  "ret x = (\<lambda>w. (Inr x, w))"

definition raise :: "error \<Rightarrow> 'a io" where
  "raise e = (\<lambda>w. (Inl e, w))"

definition bind :: "'a io \<Rightarrow> ('a \<Rightarrow> 'b io) \<Rightarrow> 'b io" where
  "bind m f = (\<lambda>w. case m w of (Inl e, w') \<Rightarrow> (Inl e, w') | (Inr x, w') \<Rightarrow> f x w')"

definition lift :: "error + 'a \<Rightarrow> 'a io" where
  "lift r = (\<lambda>w. (r, w))"

definition print :: "logline \<Rightarrow> unit io" where
  "print l = (\<lambda>w. (Inr (), w\<lparr>stdout := stdout w @ [l]\<rparr>))"

subsection \<open>\<^verbatim>\<open>get_video_id\<close>\<close>

text \<open>
  The pattern is \<^verbatim>\<open>https://slideslive\.(com|de)/([0-9]*)/([^/?]*)(.*)\<close>.
  \<open>match_here\<close> matches it at the start of a string and gives the four groups. One greedy
  pass decides the match: \<^verbatim>\<open>com\<close> and \<^verbatim>\<open>de\<close> differ in their first character; a
  shorter run of digits is followed by a digit, never by the slash; and after the third
  group \<^verbatim>\<open>(.*)\<close> matches whatever follows, up to a line break.
\<close>

fun strip_prefix :: "string \<Rightarrow> string \<Rightarrow> string option" where
  "strip_prefix [] s = Some s"
| "strip_prefix (p # ps) [] = None"
| "strip_prefix (p # ps) (c # cs) = (if p = c then strip_prefix ps cs else None)"

definition is_digit :: "char \<Rightarrow> bool" where
  "is_digit c = (c \<in> set ''0123456789'')"

definition is_name_char :: "char \<Rightarrow> bool" where
  "is_name_char c = (c \<noteq> CHR ''/'' \<and> c \<noteq> CHR ''?'')"

definition strip_host :: "string \<Rightarrow> (string \<times> string) option" where
  "strip_host s =
     (case strip_prefix ''com'' s of
        Some r \<Rightarrow> Some (''com'', r)
      | None \<Rightarrow>
          (case strip_prefix ''de'' s of
             Some r \<Rightarrow> Some (''de'', r)
           | None \<Rightarrow> None))"

definition match_here :: "string \<Rightarrow> (string \<times> string \<times> string \<times> string) option" where
  "match_here s =
     (case strip_prefix ''https://slideslive.'' s of
        None \<Rightarrow> None
      | Some r1 \<Rightarrow>
          (case strip_host r1 of
             None \<Rightarrow> None
           | Some (host, r2) \<Rightarrow>
               (case strip_prefix ''/'' r2 of
                  None \<Rightarrow> None
                | Some r3 \<Rightarrow>
                    (case strip_prefix ''/'' (dropWhile is_digit r3) of
                       None \<Rightarrow> None
                     | Some r4 \<Rightarrow>
                         Some (host, takeWhile is_digit r3, takeWhile is_name_char r4,
                               takeWhile (\<lambda>c. c \<noteq> CHR 0x0A) (dropWhile is_name_char r4))))))"

text \<open>
  \<^verbatim>\<open>re.findall\<close> scans from the left, so \<^verbatim>\<open>ids[0]\<close> is the match at the first
  position where the pattern matches, and \<^verbatim>\<open>len(ids) < 1\<close> holds when there is none.
\<close>

fun findall_first :: "string \<Rightarrow> (string \<times> string \<times> string \<times> string) option" where
  "findall_first [] = match_here []"
| "findall_first (c # cs) =
     (case match_here (c # cs) of
        Some m \<Rightarrow> Some m
      | None \<Rightarrow> findall_first cs)"

definition get_video_id :: "string \<Rightarrow> (string \<times> string) io" where
  "get_video_id video_url =
     (case findall_first video_url of
        None \<Rightarrow> bind (print (MsgNotUrl video_url)) (\<lambda>_. raise SystemExit)
      | Some (host, ident, name, rest) \<Rightarrow> ret (ident, name))"

subsection \<open>Files and the network\<close>

definition bindE :: "error + 'a \<Rightarrow> ('a \<Rightarrow> error + 'b) \<Rightarrow> error + 'b" where
  "bindE r f = (case r of Inl e \<Rightarrow> Inl e | Inr x \<Rightarrow> f x)"

text \<open>\<^verbatim>\<open>try: m except: h\<close>, with the test that says which exceptions the clause catches.\<close>

definition try_except :: "(error \<Rightarrow> bool) \<Rightarrow> 'a io \<Rightarrow> (error \<Rightarrow> 'a io) \<Rightarrow> 'a io" where
  "try_except catches m h =
     (\<lambda>w. case m w of
            (Inl e, w') \<Rightarrow> if catches e then h e w' else (Inl e, w')
          | (Inr x, w') \<Rightarrow> (Inr x, w'))"

definition path_exists :: "world \<Rightarrow> string \<Rightarrow> bool" where
  "path_exists w p = (fs w p \<noteq> None)"

definition path_isfile :: "world \<Rightarrow> string \<Rightarrow> bool" where
  "path_isfile w p = (case fs w p of Some (File c) \<Rightarrow> True | _ \<Rightarrow> False)"

text \<open>The part of a path before its last slash; empty for a name in the working directory.\<close>

definition dirname :: "string \<Rightarrow> string" where
  "dirname p = rev (drop 1 (dropWhile (\<lambda>c. c \<noteq> CHR ''/'') (rev p)))"

definition parent_ok :: "world \<Rightarrow> string \<Rightarrow> bool" where
  "parent_ok w p = (dirname p = [] \<or> fs w (dirname p) = Some Dir)"

definition mkdir :: "string \<Rightarrow> unit io" where
  "mkdir p =
     (\<lambda>w. if path_exists w p \<or> \<not> parent_ok w p then (Inl OSError, w)
          else (Inr (), w\<lparr>fs := (fs w)(p \<mapsto> Dir)\<rparr>))"

text \<open>\<^verbatim>\<open>with open(p, 'wb') as f: f.write(c)\<close>.\<close>

definition write_file :: "string \<Rightarrow> string \<Rightarrow> unit io" where
  "write_file p c =
     (\<lambda>w. if fs w p = Some Dir \<or> \<not> parent_ok w p then (Inl OSError, w)
          else (Inr (), w\<lparr>fs := (fs w)(p \<mapsto> File c)\<rparr>))"

text \<open>\<^verbatim>\<open>open(p, 'a')\<close>, and one \<^verbatim>\<open>f.write(c)\<close> on the file it opened.\<close>

definition open_append :: "string \<Rightarrow> unit io" where
  "open_append p =
     (\<lambda>w. case fs w p of
            Some Dir \<Rightarrow> (Inl OSError, w)
          | Some (File c) \<Rightarrow> (Inr (), w)
          | None \<Rightarrow> if parent_ok w p then (Inr (), w\<lparr>fs := (fs w)(p \<mapsto> File [])\<rparr>)
                    else (Inl OSError, w))"

definition append_file :: "string \<Rightarrow> string \<Rightarrow> unit io" where
  "append_file p c =
     (\<lambda>w. case fs w p of
            Some (File old) \<Rightarrow> (Inr (), w\<lparr>fs := (fs w)(p \<mapsto> File (old @ c))\<rparr>)
          | _ \<Rightarrow> (Inl OSError, w))"

text \<open>\<^verbatim>\<open>open(p, 'r')\<close>; the text is what the parser reads later.\<close>

definition read_file :: "string \<Rightarrow> string io" where
  "read_file p = (\<lambda>w. case fs w p of Some (File c) \<Rightarrow> (Inr c, w) | _ \<Rightarrow> (Inl OSError, w))"

definition requests_get :: "env \<Rightarrow> string \<Rightarrow> (nat \<times> string) io" where
  "requests_get E url =
     (\<lambda>w. case net E url of
            NoResponse \<Rightarrow> (Inl RequestError, w\<lparr>fetched := fetched w @ [url]\<rparr>)
          | Response st body \<Rightarrow> (Inr (st, body), w\<lparr>fetched := fetched w @ [url]\<rparr>))"

definition raise_for_status :: "nat \<Rightarrow> unit io" where
  "raise_for_status st = (if 400 \<le> st \<and> st < 600 then raise (HTTPError st) else ret ())"

text \<open>\<^verbatim>\<open>time.sleep\<close> raises on a negative length; the waiting itself is not modelled.\<close>

definition sleep :: "rat \<Rightarrow> unit io" where
  "sleep t = (if t < 0 then raise ValueError else ret ())"

subsection \<open>\<^verbatim>\<open>download_save_file\<close>\<close>

text \<open>The headers are passed on to the request and play no other part; \<open>net\<close> stands for
  the request with them.\<close>

definition download_save_file :: "env \<Rightarrow> string \<Rightarrow> string \<Rightarrow> rat \<Rightarrow> unit io" where
  "download_save_file E url save_path wait_time =
     bind (requests_get E url) (\<lambda>r.
     bind (raise_for_status (fst r)) (\<lambda>_.
     bind (write_file save_path (snd r)) (\<lambda>_.
     sleep wait_time)))"

subsection \<open>\<^verbatim>\<open>parse_json\<close> and \<^verbatim>\<open>parse_xml\<close>\<close>

text \<open>A row is one slide: a dict of \<^verbatim>\<open>parse_json\<close>, or a row of the data frame of
  \<^verbatim>\<open>parse_xml\<close>, as the list of its keys (columns) and values.\<close>

type_synonym row = "(string \<times> pyval) list"

definition row_getitem :: "row \<Rightarrow> string \<Rightarrow> error + pyval" where
  "row_getitem r k = (case map_of r k of None \<Rightarrow> Inl KeyError | Some v \<Rightarrow> Inr v)"

definition slide_entry :: "pyval \<Rightarrow> error + row" where
  "slide_entry slide =
     bindE (py_getitem slide ''image'') (\<lambda>image.
     bindE (py_getitem image ''name'') (\<lambda>name.
     bindE (py_getitem image ''extname'') (\<lambda>extname.
     bindE (py_getitem slide ''time'') (\<lambda>time.
     Inr [(''slideName'', name), (''slideExt'', extname), (''time'', time)]))))"

fun parse_slides :: "pyval list \<Rightarrow> error + row list" where
  "parse_slides [] = Inr []"
| "parse_slides (slide # rest) =
     bindE (slide_entry slide) (\<lambda>r.
     bindE (parse_slides rest) (\<lambda>rs.
     Inr (r # rs)))"

definition parse_json :: "env \<Rightarrow> string \<Rightarrow> error + row list" where
  "parse_json E json_file =
     (case json_load E json_file of
        None \<Rightarrow> Inl JSONDecodeError
      | Some parsed \<Rightarrow>
          bindE (py_getitem parsed ''slides'') (\<lambda>sl.
          bindE (py_iter sl) parse_slides))"

text \<open>
  \<^verbatim>\<open>node.find(el)\<close> for a plain tag name: the first child with that tag. A cell is the
  text of that child, and \<^verbatim>\<open>None\<close> when the child is missing or empty; what the data
  frame makes of a \<^verbatim>\<open>None\<close> cell is not modelled further.
\<close>

definition xml_find :: "xml \<Rightarrow> string \<Rightarrow> xml option" where
  "xml_find node el = find (\<lambda>c. tag c = el) (children node)"

definition xml_cell :: "xml \<Rightarrow> string \<Rightarrow> pyval" where
  "xml_cell node el =
     (case xml_find node el of
        None \<Rightarrow> PNone
      | Some c \<Rightarrow> (case elem_text c of None \<Rightarrow> PNone | Some t \<Rightarrow> PStr t))"

definition parse_xml :: "env \<Rightarrow> string \<Rightarrow> string list \<Rightarrow> error + row list" where
  "parse_xml E xml_file df_cols =
     (case xml_parse E xml_file of
        None \<Rightarrow> Inl ParseError
      | Some xroot \<Rightarrow> Inr (map (\<lambda>node. map (\<lambda>el. (el, xml_cell node el)) df_cols) (children xroot)))"

subsection \<open>\<^verbatim>\<open>download_slides_info\<close> and its two fetchers\<close>

datatype slides_info = JsonInfo "row list" | XmlInfo "row list"

definition folder_of :: "string \<Rightarrow> string \<Rightarrow> string" where
  "folder_of video_id video_name = video_id @ ''-'' @ video_name"

definition download_slides_info_xml ::
  "env \<Rightarrow> string \<Rightarrow> string \<Rightarrow> string \<Rightarrow> rat \<Rightarrow> string io" where
  "download_slides_info_xml E base_xml_url video_id download_folder wait_time =
     (let file_path = download_folder @ ''/'' @ video_id @ ''.xml'' in
      bind (\<lambda>w. if \<not> path_exists w file_path
                then bind (print (MsgDownloading file_path)) (\<lambda>_.
                       download_save_file E
                         (base_xml_url @ ''/'' @ video_id @ ''/'' @ video_id @ ''.xml'')
                         file_path wait_time) w
                else ret () w) (\<lambda>_.
      read_file file_path))"

definition download_slides_info_json ::
  "env \<Rightarrow> string \<Rightarrow> string \<Rightarrow> string \<Rightarrow> rat \<Rightarrow> string io" where
  "download_slides_info_json E base_url video_id download_folder wait_time =
     (let file_path = download_folder @ ''/slides.json'' in
      bind (\<lambda>w. if \<not> path_exists w file_path
                then bind (print (MsgDownloading file_path)) (\<lambda>_.
                       download_save_file E
                         (base_url @ ''/'' @ video_id @ ''/v6/slides.json'')
                         file_path wait_time) w
                else ret () w) (\<lambda>_.
      read_file file_path))"

text \<open>The body of the \<^verbatim>\<open>try\<close> and the body of the \<^verbatim>\<open>except\<close>.\<close>

definition json_path :: "env \<Rightarrow> string \<Rightarrow> string \<Rightarrow> string \<Rightarrow> rat \<Rightarrow> slides_info io" where
  "json_path E base_json_url video_id folder_name wait_time =
     bind (download_slides_info_json E base_json_url video_id folder_name wait_time) (\<lambda>info_json.
     lift (map_sum id JsonInfo (parse_json E info_json)))"

definition xml_path :: "env \<Rightarrow> string \<Rightarrow> string \<Rightarrow> string \<Rightarrow> rat \<Rightarrow> slides_info io" where
  "xml_path E base_xml_url video_id folder_name wait_time =
     bind (print MsgJsonFailed) (\<lambda>_.
     bind (download_slides_info_xml E base_xml_url video_id folder_name wait_time) (\<lambda>xml.
     lift (map_sum id XmlInfo
             (parse_xml E xml [''orderId'', ''timeSec'', ''time'', ''slideName'']))))"

text \<open>The two checks on the folder that come before the \<^verbatim>\<open>try\<close>.\<close>

definition prepare_folder :: "string \<Rightarrow> unit io" where
  "prepare_folder folder_name =
     bind (\<lambda>w. if \<not> path_exists w folder_name then mkdir folder_name w else ret () w) (\<lambda>_.
     (\<lambda>w. if path_isfile w folder_name
          then bind (print (MsgIsFile folder_name)) (\<lambda>_. raise SystemExit) w
          else ret () w))"

definition download_slides_info ::
  "env \<Rightarrow> string \<Rightarrow> string \<Rightarrow> string \<Rightarrow> string \<Rightarrow> rat \<Rightarrow> slides_info io" where
  "download_slides_info E base_json_url base_xml_url video_id video_name wait_time =
     (let folder_name = folder_of video_id video_name in
      bind (prepare_folder folder_name) (\<lambda>_.
      try_except caught_by_bare_except
        (json_path E base_json_url video_id folder_name wait_time)
        (\<lambda>e. xml_path E base_xml_url video_id folder_name wait_time)))"

subsection \<open>\<^verbatim>\<open>download_slides_json\<close> and \<^verbatim>\<open>download_slides_xml\<close>\<close>

text \<open>
  Both build the image URL with \<^verbatim>\<open>(base_url + template).format(...)\<close>, so the method
  reads the base URL as part of the template. A base URL without braces comes out as it
  is; one with braces leaves the model.
\<close>

definition brace_free :: "string \<Rightarrow> bool" where
  "brace_free s = (CHR ''{'' \<notin> set s \<and> CHR ''}'' \<notin> set s)"

definition json_img_url :: "string \<Rightarrow> string \<Rightarrow> pyval \<Rightarrow> pyval \<Rightarrow> error + string" where
  "json_img_url base_url video_id slide_name size_arg =
     (if \<not> brace_free base_url then Inl Unmodelled
      else
        bindE (py_str slide_name) (\<lambda>sn.
        bindE (py_str size_arg) (\<lambda>sz.
        Inr (base_url @ ''/'' @ video_id @ ''/slides/'' @ sn @ ''?h='' @ sz
               @ ''&f=webp&s=lambda&accelerate_s3=1''))))"

definition json_file_path :: "string \<Rightarrow> row \<Rightarrow> pyval \<Rightarrow> error + string" where
  "json_file_path folder_name slide size_arg =
     bindE (row_getitem slide ''slideName'') (\<lambda>name.
     bindE (row_getitem slide ''time'') (\<lambda>time.
     bindE (row_getitem slide ''slideExt'') (\<lambda>ext.
     bindE (py_str name) (\<lambda>n.
     bindE (py_str size_arg) (\<lambda>sz.
     bindE (py_str time) (\<lambda>t.
     bindE (py_str ext) (\<lambda>x.
     Inr (folder_name @ ''/'' @ n @ ''-'' @ sz @ ''-'' @ t @ x))))))))"

text \<open>One turn of the loop: every failure of the download is printed and dropped.\<close>

definition fetch_slide :: "env \<Rightarrow> string \<Rightarrow> string \<Rightarrow> rat \<Rightarrow> unit io" where
  "fetch_slide E img_url file_path wait_time =
     bind (print (MsgDownloading file_path)) (\<lambda>_.
     try_except caught_by_except_Exception
       (download_save_file E img_url file_path wait_time)
       (\<lambda>e. print (MsgSkipping e)))"

definition json_slide_target :: "string \<Rightarrow> string \<Rightarrow> string \<Rightarrow> pyval \<Rightarrow> row \<Rightarrow> error + string \<times> string" where
  "json_slide_target base_url video_id folder_name size_arg slide =
     bindE (row_getitem slide ''slideName'') (\<lambda>name.
     bindE (row_getitem slide ''slideExt'') (\<lambda>ext.
     bindE (py_add name ext) (\<lambda>slide_name.
     bindE (json_img_url base_url video_id slide_name size_arg) (\<lambda>img_url.
     bindE (json_file_path folder_name slide size_arg) (\<lambda>file_path.
     Inr (img_url, file_path))))))"

fun download_slides_json_loop ::
  "env \<Rightarrow> string \<Rightarrow> string \<Rightarrow> pyval \<Rightarrow> string \<Rightarrow> rat \<Rightarrow> row list \<Rightarrow> unit io" where
  "download_slides_json_loop E video_id folder_name size_arg base_url wait_time [] = ret ()"
| "download_slides_json_loop E video_id folder_name size_arg base_url wait_time (slide # rest) =
     bind (lift (json_slide_target base_url video_id folder_name size_arg slide)) (\<lambda>t.
     bind (fetch_slide E (fst t) (snd t) wait_time) (\<lambda>_.
     download_slides_json_loop E video_id folder_name size_arg base_url wait_time rest))"

definition download_slides_json ::
  "env \<Rightarrow> string \<Rightarrow> string \<Rightarrow> row list \<Rightarrow> pyval \<Rightarrow> string \<Rightarrow> rat \<Rightarrow> unit io" where
  "download_slides_json E video_id video_name slide_info size_arg base_url wait_time =
     download_slides_json_loop E video_id (folder_of video_id video_name) size_arg base_url
       wait_time slide_info"

definition xml_img_url :: "string \<Rightarrow> string \<Rightarrow> pyval \<Rightarrow> pyval \<Rightarrow> error + string" where
  "xml_img_url base_url video_id slide_name size_arg =
     (if \<not> brace_free base_url then Inl Unmodelled
      else
        bindE (py_str size_arg) (\<lambda>sz.
        bindE (py_str slide_name) (\<lambda>sn.
        Inr (base_url @ ''/'' @ video_id @ ''/slides/'' @ sz @ ''/'' @ sn @ ''.jpg''))))"

definition xml_file_path :: "string \<Rightarrow> row \<Rightarrow> pyval \<Rightarrow> error + string" where
  "xml_file_path folder_name row size_arg =
     bindE (row_getitem row ''slideName'') (\<lambda>name.
     bindE (row_getitem row ''time'') (\<lambda>time.
     bindE (py_str time) (\<lambda>t.
     bindE (py_str name) (\<lambda>n.
     bindE (py_str size_arg) (\<lambda>sz.
     Inr (folder_name @ ''/'' @ t @ ''-'' @ n @ ''-'' @ sz @ ''.jpg''))))))"

definition xml_slide_target :: "string \<Rightarrow> string \<Rightarrow> string \<Rightarrow> pyval \<Rightarrow> row \<Rightarrow> error + string \<times> string" where
  "xml_slide_target base_url video_id folder_name size_arg row =
     bindE (row_getitem row ''slideName'') (\<lambda>name.
     bindE (xml_img_url base_url video_id name size_arg) (\<lambda>img_url.
     bindE (xml_file_path folder_name row size_arg) (\<lambda>file_path.
     Inr (img_url, file_path))))"

fun download_slides_xml_loop ::
  "env \<Rightarrow> string \<Rightarrow> string \<Rightarrow> pyval \<Rightarrow> string \<Rightarrow> rat \<Rightarrow> row list \<Rightarrow> unit io" where
  "download_slides_xml_loop E video_id folder_name size_arg base_url wait_time [] = ret ()"
| "download_slides_xml_loop E video_id folder_name size_arg base_url wait_time (row # rest) =
     bind (lift (xml_slide_target base_url video_id folder_name size_arg row)) (\<lambda>t.
     bind (fetch_slide E (fst t) (snd t) wait_time) (\<lambda>_.
     download_slides_xml_loop E video_id folder_name size_arg base_url wait_time rest))"

definition download_slides_xml ::
  "env \<Rightarrow> string \<Rightarrow> string \<Rightarrow> row list \<Rightarrow> pyval \<Rightarrow> string \<Rightarrow> rat \<Rightarrow> unit io" where
  "download_slides_xml E video_id video_name slide_info size_arg base_url wait_time =
     download_slides_xml_loop E video_id (folder_of video_id video_name) size_arg base_url
       wait_time slide_info"

subsection \<open>\<^verbatim>\<open>create_ffmpeg_concat_file\<close>\<close>

text \<open>\<^verbatim>\<open>row.get('timeSec', row['time']/1000)\<close>: the default is computed before the lookup.\<close>

definition row_time_sec :: "row \<Rightarrow> error + pyval" where
  "row_time_sec row =
     bindE (row_getitem row ''time'') (\<lambda>time.
     bindE (py_truediv time 1000) (\<lambda>dflt.
     Inr (case map_of row ''timeSec'' of Some v \<Rightarrow> v | None \<Rightarrow> dflt)))"

text \<open>\<^verbatim>\<open>'{3}-{1}-{2}.jpg'.format(folder_name, row['slideName'], size, row['time'])\<close>.\<close>

definition concat_file_path :: "row \<Rightarrow> pyval \<Rightarrow> error + string" where
  "concat_file_path row size_arg =
     bindE (row_getitem row ''slideName'') (\<lambda>name.
     bindE (row_getitem row ''time'') (\<lambda>time.
     bindE (py_str time) (\<lambda>t.
     bindE (py_str name) (\<lambda>n.
     bindE (py_str size_arg) (\<lambda>sz.
     Inr (t @ ''-'' @ n @ ''-'' @ sz @ ''.jpg''))))))"

definition duration_line :: "int \<Rightarrow> string" where
  "duration_line d = ''duration '' @ str_int d @ [CHR 0x0A]"

definition file_line :: "string \<Rightarrow> string" where
  "file_line file_path = ''file '' @ [CHR 0x27] @ file_path @ [CHR 0x27, CHR 0x0A]"

text \<open>The loop over \<^verbatim>\<open>slides_iterator\<close>, carrying \<^verbatim>\<open>last_time\<close> and
  \<^verbatim>\<open>last_file_path\<close>; it gives the last file path.\<close>

fun concat_loop :: "string \<Rightarrow> pyval \<Rightarrow> (nat \<times> row) list \<Rightarrow> int \<Rightarrow> string \<Rightarrow> string io" where
  "concat_loop f size_arg [] last_time last_file_path = ret last_file_path"
| "concat_loop f size_arg (ir # rest) last_time last_file_path =
     bind (lift (row_time_sec (snd ir))) (\<lambda>time_sec.
     bind (lift (bindE (py_sub time_sec last_time) py_int)) (\<lambda>duration.
     bind (if fst ir \<noteq> 0 then append_file f (duration_line duration) else ret ()) (\<lambda>_.
     bind (lift (concat_file_path (snd ir) size_arg)) (\<lambda>file_path.
     bind (append_file f (file_line file_path)) (\<lambda>_.
     bind (lift (py_int time_sec)) (\<lambda>new_last_time.
     concat_loop f size_arg rest new_last_time file_path))))))"

definition create_ffmpeg_concat_file ::
  "string \<Rightarrow> string \<Rightarrow> (nat \<times> row) list \<Rightarrow> pyval \<Rightarrow> unit io" where
  "create_ffmpeg_concat_file video_id video_name slides_iterator size_arg =
     (let ffmpeg_file_path = folder_of video_id video_name @ ''/ffmpeg_concat.txt'' in
      (\<lambda>w. if path_exists w ffmpeg_file_path then ret () w
           else
             bind (open_append ffmpeg_file_path) (\<lambda>_.
             bind (concat_loop ffmpeg_file_path size_arg slides_iterator 0 []) (\<lambda>last_file_path.
             bind (append_file ffmpeg_file_path (''duration 30'' @ [CHR 0x0A])) (\<lambda>_.
             append_file ffmpeg_file_path (file_line last_file_path)))) w))"

subsection \<open>The script's body\<close>







section \<open>Vocabulary of the properties\<close>

text \<open>A world with no file, no request made and nothing printed.\<close>

definition empty_world :: world where
  "empty_world = \<lparr>fs = Map.empty, fetched = [], stdout = []\<rparr>"

subsection \<open>URL shapes\<close>

text \<open>
  \<open>pattern_occurs s\<close>: somewhere in \<open>s\<close> stands the scheme and host, a slash, a run of
  digits and a second slash. \<open>segment_ends rest\<close>: what follows the name segment is empty
  or starts with a character that ends the segment.
\<close>

definition pattern_occurs :: "string \<Rightarrow> bool" where
  "pattern_occurs s =
     (\<exists>pre host ident rest.
        s = pre @ ''https://slideslive.'' @ host @ ''/'' @ ident @ ''/'' @ rest
        \<and> (host = ''com'' \<or> host = ''de'') \<and> list_all is_digit ident)"

definition segment_ends :: "string \<Rightarrow> bool" where
  "segment_ends rest = (case rest of [] \<Rightarrow> True | c # cs \<Rightarrow> c = CHR ''/'' \<or> c = CHR ''?'')"

text \<open>
  The specification's reading of a platform URL, \<^verbatim>\<open>https://<host>/<id>/<name>...\<close>:
  the string begins with the scheme and one of the two hosts, followed by two path
  segments.
\<close>

definition spec_url_pattern :: "string \<Rightarrow> bool" where
  "spec_url_pattern s =
     (\<exists>host ident rest.
        s = ''https://slideslive.'' @ host @ ''/'' @ ident @ ''/'' @ rest
        \<and> (host = ''com'' \<or> host = ''de''))"

subsection \<open>Well-formed slides of a JSON manifest\<close>

text \<open>
  A slide of the manifest as \<^verbatim>\<open>parse_json\<close> needs it: an object with a \<^verbatim>\<open>time\<close> and an
  \<^verbatim>\<open>image\<close> object that has a \<^verbatim>\<open>name\<close> and an \<^verbatim>\<open>extname\<close>. \<open>raw_time\<close> and
  \<open>raw_name\<close> read the manifest's own fields.
\<close>

definition valid_slide :: "pyval \<Rightarrow> bool" where
  "valid_slide s =
     (case s of
        PDict kvs \<Rightarrow>
          (case map_of kvs ''image'' of
             Some (PDict img) \<Rightarrow> map_of img ''name'' \<noteq> None \<and> map_of img ''extname'' \<noteq> None
           | _ \<Rightarrow> False)
          \<and> map_of kvs ''time'' \<noteq> None
      | _ \<Rightarrow> False)"

definition raw_time :: "pyval \<Rightarrow> error + pyval" where
  "raw_time s = py_getitem s ''time''"

definition raw_name :: "pyval \<Rightarrow> error + pyval" where
  "raw_name s = bindE (py_getitem s ''image'') (\<lambda>image. py_getitem image ''name'')"

text \<open>The row \<^verbatim>\<open>parse_json\<close> builds for a slide with these three values.\<close>

definition json_row :: "pyval \<Rightarrow> pyval \<Rightarrow> pyval \<Rightarrow> row" where
  "json_row name ext time = [(''slideName'', name), (''slideExt'', ext), (''time'', time)]"

subsection \<open>An example run\<close>

text \<open>
  Video 1 has a JSON manifest of two slides; the image of the first answers 404, the
  image of the second 200. Video 2 has no JSON manifest (404) and an XML manifest of one
  slide. For video 3 the server answers the manifest request with status 300 and the
  manifest of video 1 as body; for video 4 with status 200 and a page that is no JSON.
  Nothing else answers.
\<close>

definition demo_manifest :: pyval where
  "demo_manifest =
     PDict [(''slides'', PList
       [PDict [(''image'', PDict [(''name'', PStr ''a''), (''extname'', PStr ''.png'')]),
               (''time'', PInt 0)],
        PDict [(''time'', PInt 2000),
               (''image'', PDict [(''name'', PStr ''b''), (''extname'', PStr ''.png'')])]])]"

definition demo_xml :: xml where
  "demo_xml =
     Element ''videoContent'' None
       [Element ''slide'' None
          [Element ''orderId'' (Some ''0'') [],
           Element ''timeSec'' (Some ''2'') [],
           Element ''time'' (Some ''2000'') [],
           Element ''slideName'' (Some ''s'') []]]"

definition demo_net :: "string \<Rightarrow> response" where
  "demo_net url =
     (if url = ''https://meta/1/v6/slides.json'' then Response 200 ''J''
      else if url = ''https://meta/2/v6/slides.json'' then Response 404 []
      else if url = ''https://meta/2/2.xml'' then Response 200 ''X''
      else if url = ''https://img/1/slides/a.png?h=1080&f=webp&s=lambda&accelerate_s3=1''
        then Response 404 []
      else if url = ''https://img/1/slides/b.png?h=1080&f=webp&s=lambda&accelerate_s3=1''
        then Response 200 ''B''
      else if url = ''https://meta/3/v6/slides.json'' then Response 300 ''J''
      else if url = ''https://meta/4/v6/slides.json'' then Response 200 ''<html>''
      else NoResponse)"

definition demo_env :: env where
  "demo_env =
     \<lparr>net = demo_net,
      json_load = (\<lambda>t. if t = ''J'' then Some demo_manifest else None),
      xml_parse = (\<lambda>t. if t = ''X'' then Some demo_xml else None)\<rparr>"

text \<open>The world at the start of a run on video 1 or 2, once its folder exists.\<close>

definition folder_world :: "string \<Rightarrow> world" where
  "folder_world folder_name = empty_world\<lparr>fs := [folder_name \<mapsto> Dir]\<rparr>"


definition world_after_info :: world where
  "world_after_info = (folder_world ''1-n'')
         \<lparr>fs := (fs (folder_world ''1-n''))(''1-n/slides.json'' \<mapsto> File ''J''),
          fetched := [''https://meta/1/v6/slides.json''],
          stdout := [MsgDownloading ''1-n/slides.json'']\<rparr>"

definition world_after_slides :: world where
  "world_after_slides = world_after_info
         \<lparr>fs := (fs world_after_info)(''1-n/b-1080-2000.png'' \<mapsto> File ''B''),
          fetched := [''https://meta/1/v6/slides.json'',
                      ''https://img/1/slides/a.png?h=1080&f=webp&s=lambda&accelerate_s3=1'',
                      ''https://img/1/slides/b.png?h=1080&f=webp&s=lambda&accelerate_s3=1''],
          stdout := [MsgDownloading ''1-n/slides.json'', MsgDownloading ''1-n/a-1080-0.png'',
                     MsgSkipping (HTTPError 404), MsgDownloading ''1-n/b-1080-2000.png'']\<rparr>"

subsection \<open>Lines of a file\<close>

text \<open>
  The lines of a text, each without its line feed, and the lines of the file at a path
  (none when there is no file there).
\<close>

fun split_lines :: "string \<Rightarrow> string list" where
  "split_lines [] = []"
| "split_lines (c # cs) =
     (if c = CHR 0x0A then [] # split_lines cs
      else (case split_lines cs of [] \<Rightarrow> [[c]] | l # ls \<Rightarrow> (c # l) # ls))"

definition file_lines :: "world \<Rightarrow> string \<Rightarrow> string list" where
  "file_lines w p = (case fs w p of Some (File c) \<Rightarrow> split_lines c | _ \<Rightarrow> [])"

section \<open>The URL resolver\<close>

lemma strip_prefix_iff: "strip_prefix p s = Some r \<longleftrightarrow> s = p @ r"
  by (induction p s rule: strip_prefix.induct) auto

lemma strip_prefix_append: "strip_prefix p (p @ s) = Some s"
  by (simp add: strip_prefix_iff)

lemma strip_host_iff: "strip_host s = Some (h, r) \<longleftrightarrow> (h = ''com'' \<or> h = ''de'') \<and> s = h @ r"
  unfolding strip_host_def
  by (auto simp: strip_prefix_iff split: option.splits)

lemma takeWhile_digits: "list_all is_digit i \<Longrightarrow> takeWhile is_digit (i @ CHR ''/'' # r) = i"
  by (induction i) (auto simp: is_digit_def)

lemma dropWhile_digits: "list_all is_digit i \<Longrightarrow> dropWhile is_digit (i @ CHR ''/'' # r) = CHR ''/'' # r"
  by (induction i) (auto simp: is_digit_def)

lemma match_here_shape:
  assumes "h = ''com'' \<or> h = ''de''" "list_all is_digit i"
  shows "match_here (''https://slideslive.'' @ h @ ''/'' @ i @ ''/'' @ r) =
    Some (h, i, takeWhile is_name_char r,
          takeWhile (\<lambda>c. c \<noteq> CHR 0x0A) (dropWhile is_name_char r))"
proof -
  have 1: "strip_prefix ''https://slideslive.'' (''https://slideslive.'' @ h @ ''/'' @ i @ ''/'' @ r)
      = Some (h @ ''/'' @ i @ ''/'' @ r)"
    by (rule strip_prefix_append)
  have 2: "strip_host (h @ ''/'' @ i @ ''/'' @ r) = Some (h, ''/'' @ i @ ''/'' @ r)"
    using assms(1) by (simp add: strip_host_iff)
  show ?thesis
    unfolding match_here_def 1 using 2 assms(2)
    by (simp add: takeWhile_digits dropWhile_digits)
qed

lemma match_here_Some_shape:
  assumes "match_here s = Some (h, i, n, t)"
  shows "\<exists>r. s = ''https://slideslive.'' @ h @ ''/'' @ i @ ''/'' @ r \<and> (h = ''com'' \<or> h = ''de'')
     \<and> list_all is_digit i \<and> n = takeWhile is_name_char r"
proof -
  from assms obtain r1 where a: "strip_prefix ''https://slideslive.'' s = Some r1"
    unfolding match_here_def by (cases "strip_prefix ''https://slideslive.'' s") simp_all
  have m1: "(case strip_host r1 of None \<Rightarrow> None
      | Some (host, r2) \<Rightarrow>
          (case strip_prefix ''/'' r2 of None \<Rightarrow> None
           | Some r3 \<Rightarrow>
               (case strip_prefix ''/'' (dropWhile is_digit r3) of None \<Rightarrow> None
                | Some r4 \<Rightarrow>
                    Some (host, takeWhile is_digit r3, takeWhile is_name_char r4,
                          takeWhile (\<lambda>c. c \<noteq> CHR 0x0A) (dropWhile is_name_char r4))))) = Some (h, i, n, t)"
    using assms unfolding match_here_def a by simp
  then obtain h' r2 where b': "strip_host r1 = Some (h', r2)"
    by (cases "strip_host r1") auto
  have m2: "(case strip_prefix ''/'' r2 of None \<Rightarrow> None
           | Some r3 \<Rightarrow>
               (case strip_prefix ''/'' (dropWhile is_digit r3) of None \<Rightarrow> None
                | Some r4 \<Rightarrow>
                    Some (h', takeWhile is_digit r3, takeWhile is_name_char r4,
                          takeWhile (\<lambda>c. c \<noteq> CHR 0x0A) (dropWhile is_name_char r4)))) = Some (h, i, n, t)"
    using m1 unfolding b' by simp
  then obtain r3 where c: "strip_prefix ''/'' r2 = Some r3"
    by (cases "strip_prefix ''/'' r2") auto
  have m3: "(case strip_prefix ''/'' (dropWhile is_digit r3) of None \<Rightarrow> None
                | Some r4 \<Rightarrow>
                    Some (h', takeWhile is_digit r3, takeWhile is_name_char r4,
                          takeWhile (\<lambda>c. c \<noteq> CHR 0x0A) (dropWhile is_name_char r4))) = Some (h, i, n, t)"
    using m2 unfolding c by simp
  then obtain r4 where d: "strip_prefix ''/'' (dropWhile is_digit r3) = Some r4"
    by (cases "strip_prefix ''/'' (dropWhile is_digit r3)") auto
  have e: "h' = h" "i = takeWhile is_digit r3" "n = takeWhile is_name_char r4"
    using m3 unfolding d by simp_all
  have b: "strip_host r1 = Some (h, r2)" using b' e by simp
  have "r3 = takeWhile is_digit r3 @ dropWhile is_digit r3" by simp
  also have "dropWhile is_digit r3 = ''/'' @ r4" using d by (simp only: strip_prefix_iff)
  finally have r3: "r3 = i @ ''/'' @ r4" using e by simp
  have di: "list_all is_digit i" unfolding e list_all_iff using set_takeWhileD by fast
  have s1: "s = ''https://slideslive.'' @ r1" using a by (simp only: strip_prefix_iff)
  have s2: "r1 = h @ r2" using b by (simp only: strip_host_iff)
  have s3: "r2 = ''/'' @ r3" using c by (simp only: strip_prefix_iff)
  have "s = ''https://slideslive.'' @ h @ ''/'' @ i @ ''/'' @ r4"
    by (subst s1, subst s2, subst s3, subst r3) simp
  moreover have "h = ''com'' \<or> h = ''de''" using b by (simp only: strip_host_iff)
  ultimately show ?thesis using e di by blast
qed

lemma findall_first_here: "match_here s = Some m \<Longrightarrow> findall_first s = Some m"
  by (cases s) auto

lemma findall_first_append:
  "match_here suf = Some m \<Longrightarrow> findall_first (pre @ suf) \<noteq> None"
proof (induction pre)
  case Nil
  from findall_first_here[OF this] show ?case by simp
next
  case (Cons c pre)
  then show ?case by (cases "match_here (c # pre @ suf)") simp_all
qed

lemma findall_first_Some_split:
  "findall_first s = Some m \<Longrightarrow> \<exists>pre suf. s = pre @ suf \<and> match_here suf = Some m"
proof (induction s)
  case Nil
  then have "[] = [] @ [] \<and> match_here [] = Some m" by simp
  then show ?case by (intro exI)
next
  case (Cons c cs)
  show ?case
  proof (cases "match_here (c # cs)")
    case None
    with Cons.prems have "findall_first cs = Some m" by simp
    from Cons.IH[OF this] obtain pre suf where "cs = pre @ suf" "match_here suf = Some m"
      by (elim exE conjE)
    then have "c # cs = (c # pre) @ suf \<and> match_here suf = Some m" by simp
    then show ?thesis by (intro exI)
  next
    case (Some a)
    with Cons.prems have "c # cs = [] @ (c # cs) \<and> match_here (c # cs) = Some m" by simp
    then show ?thesis by (intro exI)
  qed
qed

lemma pattern_occurs_iff: "pattern_occurs s \<longleftrightarrow> findall_first s \<noteq> None"
proof
  assume "pattern_occurs s"
  then have "\<exists>pre host ident rest.
        s = pre @ ''https://slideslive.'' @ host @ ''/'' @ ident @ ''/'' @ rest
        \<and> (host = ''com'' \<or> host = ''de'') \<and> list_all is_digit ident"
    by (simp only: pattern_occurs_def)
  then obtain pre host ident rest where
    s: "s = pre @ ''https://slideslive.'' @ host @ ''/'' @ ident @ ''/'' @ rest" and
    h: "host = ''com'' \<or> host = ''de''" and d: "list_all is_digit ident"
    by (elim exE conjE)
  from findall_first_append[OF match_here_shape[OF h d, of rest], of pre]
  show "findall_first s \<noteq> None" unfolding s .
next
  assume "findall_first s \<noteq> None"
  then obtain m where "findall_first s = Some m" by (cases "findall_first s") simp_all
  from findall_first_Some_split[OF this] obtain pre suf where
    s: "s = pre @ suf" and m: "match_here suf = Some m" by (elim exE conjE)
  obtain h i n t where "m = (h, i, n, t)" by (cases m)
  from match_here_Some_shape[OF m[unfolded this]] obtain r where
    "suf = ''https://slideslive.'' @ h @ ''/'' @ i @ ''/'' @ r" "h = ''com'' \<or> h = ''de''"
    "list_all is_digit i" by (elim exE conjE)
  then have "s = pre @ ''https://slideslive.'' @ h @ ''/'' @ i @ ''/'' @ r
        \<and> (h = ''com'' \<or> h = ''de'') \<and> list_all is_digit i" using s by simp
  then show "pattern_occurs s" unfolding pattern_occurs_def by (intro exI)
qed

lemma takeWhile_name: "list_all is_name_char n \<Longrightarrow> segment_ends rest \<Longrightarrow> takeWhile is_name_char (n @ rest) = n"
  by (induction n) (auto simp: segment_ends_def is_name_char_def split: list.splits)

lemma get_video_id_found:
  "findall_first s = Some (h, i, n, t) \<Longrightarrow> get_video_id s w = (Inr (i, n), w)"
  by (simp add: get_video_id_def ret_def)

lemma get_video_id_none:
  "findall_first s = None \<Longrightarrow> get_video_id s w = (Inl SystemExit, w\<lparr>stdout := stdout w @ [MsgNotUrl s]\<rparr>)"
  by (simp add: get_video_id_def bind_def print_def raise_def)

lemma get_video_id_at_start:
  assumes "host = ''com'' \<or> host = ''de''" "list_all is_digit ident"
    "list_all is_name_char name" "segment_ends rest"
  shows "get_video_id (''https://slideslive.'' @ host @ ''/'' @ ident @ ''/'' @ name @ rest) w
        = (Inr (ident, name), w)"
proof -
  have "match_here (''https://slideslive.'' @ host @ ''/'' @ ident @ ''/'' @ name @ rest)
     = Some (host, ident, name, takeWhile (\<lambda>c. c \<noteq> CHR 0x0A) (dropWhile is_name_char (name @ rest)))"
    using match_here_shape[OF assms(1,2), of "name @ rest"] takeWhile_name[OF assms(3,4)] by simp
  from get_video_id_found[OF findall_first_here[OF this]] show ?thesis .
qed

text \<open>
  Claim C6, as the code has it. A string that begins with
  \<^verbatim>\<open>https://slideslive.com/\<close> or \<^verbatim>\<open>https://slideslive.de/\<close>, a run of digits, a slash
  and a name resolves to exactly that run of digits and that name. The search is not
  anchored: a string resolves whenever the pattern occurs somewhere in it, and only a
  string with no occurrence at all prints the error and exits.
\<close>

theorem get_video_id_resolves:
  "((host = ''com'' \<or> host = ''de'') \<and> list_all is_digit ident \<and> list_all is_name_char name
      \<and> segment_ends rest \<longrightarrow>
      get_video_id (''https://slideslive.'' @ host @ ''/'' @ ident @ ''/'' @ name @ rest) w
        = (Inr (ident, name), w))
   \<and> (pattern_occurs s \<longrightarrow> (\<exists>ident name. get_video_id s w = (Inr (ident, name), w)))
   \<and> (\<not> pattern_occurs s \<longrightarrow>
        get_video_id s w = (Inl SystemExit, w\<lparr>stdout := stdout w @ [MsgNotUrl s]\<rparr>))"
proof (intro conjI impI)
  assume "(host = ''com'' \<or> host = ''de'') \<and> list_all is_digit ident \<and> list_all is_name_char name
      \<and> segment_ends rest"
  then show "get_video_id (''https://slideslive.'' @ host @ ''/'' @ ident @ ''/'' @ name @ rest) w
        = (Inr (ident, name), w)"
    using get_video_id_at_start by simp
next
  assume "pattern_occurs s"
  then have "findall_first s \<noteq> None" using pattern_occurs_iff[of s] by blast
  then obtain m where "findall_first s = Some m" by (cases "findall_first s") simp_all
  moreover obtain h i n t where "m = (h, i, n, t)" by (cases m)
  ultimately have "get_video_id s w = (Inr (i, n), w)" using get_video_id_found by simp
  then show "\<exists>ident name. get_video_id s w = (Inr (ident, name), w)" by (intro exI)
next
  assume "\<not> pattern_occurs s"
  then have "findall_first s = None" using pattern_occurs_iff[of s] by blast
  then show "get_video_id s w = (Inl SystemExit, w\<lparr>stdout := stdout w @ [MsgNotUrl s]\<rparr>)"
    by (rule get_video_id_none)
qed

lemma no_match_example: "findall_first ''http://example.org/1/x'' = None"
  by (simp add: match_here_def)

lemma match_example: "findall_first ''see https://slideslive.de/7/b'' \<noteq> None"
  by (simp add: match_here_def strip_host_def is_digit_def)

text \<open>The three cases of C6 on concrete strings.\<close>

theorem get_video_id_resolves_witness:
  "get_video_id ''https://slideslive.com/38956/talk?x=1'' empty_world
     = (Inr (''38956'', ''talk''), empty_world)
   \<and> (\<exists>ident name. get_video_id ''see https://slideslive.de/7/b'' empty_world
          = (Inr (ident, name), empty_world))
   \<and> get_video_id ''http://example.org/1/x'' empty_world
        = (Inl SystemExit,
           empty_world\<lparr>stdout := stdout empty_world @ [MsgNotUrl ''http://example.org/1/x'']\<rparr>)"
proof -
  have h1: "(''com'' = ''com'' \<or> ''com'' = ''de'') \<and> list_all is_digit ''38956''
      \<and> list_all is_name_char ''talk'' \<and> segment_ends ''?x=1''"
    by (simp add: is_digit_def is_name_char_def segment_ends_def)
  have h2: "pattern_occurs ''see https://slideslive.de/7/b''"
    using match_example pattern_occurs_iff[of "''see https://slideslive.de/7/b''"] by blast
  have h3: "\<not> pattern_occurs ''http://example.org/1/x''"
    using no_match_example pattern_occurs_iff[of "''http://example.org/1/x''"] by blast
  note t1 = get_video_id_resolves[of "''com''" "''38956''" "''talk''" "''?x=1''" empty_world
      "''see https://slideslive.de/7/b''"]
  note t2 = get_video_id_resolves[of "''com''" "''38956''" "''talk''" "''?x=1''" empty_world
      "''http://example.org/1/x''"]
  have a: "get_video_id (''https://slideslive.'' @ ''com'' @ ''/'' @ ''38956'' @ ''/'' @ ''talk'' @ ''?x=1'') empty_world
     = (Inr (''38956'', ''talk''), empty_world)"
    using t1[THEN conjunct1] h1 by (rule mp)
  have b: "\<exists>ident name. get_video_id ''see https://slideslive.de/7/b'' empty_world
          = (Inr (ident, name), empty_world)"
    using t1[THEN conjunct2, THEN conjunct1] h2 by (rule mp)
  have c: "get_video_id ''http://example.org/1/x'' empty_world
        = (Inl SystemExit,
           empty_world\<lparr>stdout := stdout empty_world @ [MsgNotUrl ''http://example.org/1/x'']\<rparr>)"
    using t2[THEN conjunct2, THEN conjunct2] h3 by (rule mp)
  from a have a': "get_video_id ''https://slideslive.com/38956/talk?x=1'' empty_world
     = (Inr (''38956'', ''talk''), empty_world)" by simp
  from a' b c show ?thesis by (intro conjI)
qed

text \<open>
  Claim C6 as stated fails: this string does not have the shape of a platform URL, since
  it starts with another character, and still resolves.
\<close>

theorem get_video_id_unanchored_counterexample:
  "\<not> spec_url_pattern ''xhttps://slideslive.com/1/n''
   \<and> get_video_id ''xhttps://slideslive.com/1/n'' empty_world = (Inr (''1'', ''n''), empty_world)"
proof
  show "\<not> spec_url_pattern ''xhttps://slideslive.com/1/n''"
    by (simp add: spec_url_pattern_def)
  have "findall_first ''xhttps://slideslive.com/1/n'' = Some (''com'', ''1'', ''n'', [])"
    by (simp add: match_here_def strip_host_def is_digit_def is_name_char_def)
  from get_video_id_found[OF this]
  show "get_video_id ''xhttps://slideslive.com/1/n'' empty_world = (Inr (''1'', ''n''), empty_world)" .
qed

text \<open>
  Claim C10: the digits may be absent. A URL with an empty id segment resolves, to the
  empty id and the name.
\<close>

theorem get_video_id_empty_id:
  "(host = ''com'' \<or> host = ''de'') \<and> list_all is_name_char name \<and> segment_ends rest \<longrightarrow>
     get_video_id (''https://slideslive.'' @ host @ ''//'' @ name @ rest) w = (Inr ([], name), w)"
proof
  assume a: "(host = ''com'' \<or> host = ''de'') \<and> list_all is_name_char name \<and> segment_ends rest"
  then have "get_video_id (''https://slideslive.'' @ host @ ''/'' @ [] @ ''/'' @ name @ rest) w
      = (Inr ([], name), w)"
    by (intro get_video_id_at_start) simp_all
  then show "get_video_id (''https://slideslive.'' @ host @ ''//'' @ name @ rest) w = (Inr ([], name), w)"
    by simp
qed

text \<open>C10 on \<^verbatim>\<open>https://slideslive.com//name\<close>.\<close>

theorem get_video_id_empty_id_witness:
  "get_video_id ''https://slideslive.com//name'' empty_world = (Inr ([], ''name''), empty_world)"
proof -
  have h: "(''com'' = ''com'' \<or> ''com'' = ''de'') \<and> list_all is_name_char ''name'' \<and> segment_ends []"
    by (simp add: is_name_char_def segment_ends_def)
  from get_video_id_empty_id[of "''com''" "''name''" "[]" empty_world] h
  have "get_video_id (''https://slideslive.'' @ ''com'' @ ''//'' @ ''name'' @ []) empty_world
      = (Inr ([], ''name''), empty_world)" by (rule mp)
  then show ?thesis by simp
qed

section \<open>The JSON manifest\<close>

lemma slide_entry_fields:
  assumes "slide_entry s = Inr r"
  shows "row_getitem r ''time'' = raw_time s \<and> row_getitem r ''slideName'' = raw_name s"
proof -
  from assms obtain image where i: "py_getitem s ''image'' = Inr image"
    by (cases "py_getitem s ''image''") (simp_all add: slide_entry_def bindE_def)
  from assms i obtain name where n: "py_getitem image ''name'' = Inr name"
    by (cases "py_getitem image ''name''") (simp_all add: slide_entry_def bindE_def)
  from assms i n obtain ext where e: "py_getitem image ''extname'' = Inr ext"
    by (cases "py_getitem image ''extname''") (simp_all add: slide_entry_def bindE_def)
  from assms i n e obtain t where t: "py_getitem s ''time'' = Inr t"
    by (cases "py_getitem s ''time''") (simp_all add: slide_entry_def bindE_def)
  from assms i n e t have "r = [(''slideName'', name), (''slideExt'', ext), (''time'', t)]"
    by (simp add: slide_entry_def bindE_def)
  then show ?thesis
    using i n t by (simp add: row_getitem_def raw_time_def raw_name_def bindE_def)
qed

lemma slide_entry_valid:
  assumes "valid_slide s"
  shows "\<exists>r. slide_entry s = Inr r"
proof -
  from assms obtain kvs where s: "s = PDict kvs" by (cases s) (simp_all add: valid_slide_def)
  from assms s obtain v where v: "map_of kvs ''image'' = Some v"
    by (cases "map_of kvs ''image''") (simp_all add: valid_slide_def)
  from assms s v obtain img where img: "v = PDict img"
    by (cases v) (simp_all add: valid_slide_def)
  from assms s v img obtain n e t where
    "map_of img ''name'' = Some n" "map_of img ''extname'' = Some e" "map_of kvs ''time'' = Some t"
    by (auto simp: valid_slide_def)
  then show ?thesis using s v img by (simp add: slide_entry_def bindE_def)
qed

lemma parse_slides_rows:
  "parse_slides items = Inr rows \<Longrightarrow>
     length rows = length items
     \<and> map (\<lambda>r. row_getitem r ''time'') rows = map raw_time items
     \<and> map (\<lambda>r. row_getitem r ''slideName'') rows = map raw_name items"
proof (induction items arbitrary: rows)
  case Nil
  then show ?case by simp
next
  case (Cons s items)
  from Cons.prems obtain r where r: "slide_entry s = Inr r"
    by (cases "slide_entry s") (simp_all add: bindE_def)
  from Cons.prems r obtain rs where rs: "parse_slides items = Inr rs"
    by (cases "parse_slides items") (simp_all add: bindE_def)
  from Cons.prems r rs have rows: "rows = r # rs" by (simp add: bindE_def)
  show ?case using Cons.IH[OF rs] slide_entry_fields[OF r] rows by simp
qed

lemma parse_slides_total:
  "list_all valid_slide items \<Longrightarrow> \<exists>rows. parse_slides items = Inr rows"
proof (induction items)
  case Nil
  then show ?case by simp
next
  case (Cons s items)
  from Cons.prems have vs: "valid_slide s" and vi: "list_all valid_slide items" by simp_all
  from slide_entry_valid[OF vs] obtain r where "slide_entry s = Inr r" by (elim exE)
  moreover from Cons.IH[OF vi] obtain rs where "parse_slides items = Inr rs" by (elim exE)
  ultimately show ?case by (simp add: bindE_def)
qed

text \<open>
  Claim C9: on a manifest whose \<^verbatim>\<open>slides\<close> array holds well-formed slides,
  \<^verbatim>\<open>parse_json\<close> returns one row per slide, in the order of the array, and the
  \<^verbatim>\<open>time\<close> of each row is the \<^verbatim>\<open>time\<close> value of its slide, unchanged. The names
  line up in the same way.
\<close>

theorem parse_json_preserves:
  "json_load E json_file = Some (PDict kvs) \<and> map_of kvs ''slides'' = Some (PList items)
     \<and> list_all valid_slide items \<longrightarrow>
   (\<exists>rows. parse_json E json_file = Inr rows
      \<and> length rows = length items
      \<and> map (\<lambda>r. row_getitem r ''time'') rows = map raw_time items
      \<and> map (\<lambda>r. row_getitem r ''slideName'') rows = map raw_name items)"
proof
  assume a: "json_load E json_file = Some (PDict kvs) \<and> map_of kvs ''slides'' = Some (PList items)
     \<and> list_all valid_slide items"
  then obtain rows where rows: "parse_slides items = Inr rows"
    using parse_slides_total by blast
  have "parse_json E json_file = Inr rows"
    using a rows by (simp add: parse_json_def bindE_def)
  with parse_slides_rows[OF rows] show "\<exists>rows. parse_json E json_file = Inr rows
      \<and> length rows = length items
      \<and> map (\<lambda>r. row_getitem r ''time'') rows = map raw_time items
      \<and> map (\<lambda>r. row_getitem r ''slideName'') rows = map raw_name items"
    by blast
qed


text \<open>C9 on the example manifest of two slides.\<close>

theorem parse_json_preserves_witness:
  "\<exists>rows. parse_json demo_env ''J'' = Inr rows
      \<and> length rows = 2
      \<and> map (\<lambda>r. row_getitem r ''time'') rows = [Inr (PInt 0), Inr (PInt 2000)]
      \<and> map (\<lambda>r. row_getitem r ''slideName'') rows = [Inr (PStr ''a''), Inr (PStr ''b'')]"
proof -
  have h: "json_load demo_env ''J'' = Some (PDict [(''slides'', PList
       [PDict [(''image'', PDict [(''name'', PStr ''a''), (''extname'', PStr ''.png'')]),
               (''time'', PInt 0)],
        PDict [(''time'', PInt 2000),
               (''image'', PDict [(''name'', PStr ''b''), (''extname'', PStr ''.png'')])]])])
     \<and> map_of [(''slides'', PList
       [PDict [(''image'', PDict [(''name'', PStr ''a''), (''extname'', PStr ''.png'')]),
               (''time'', PInt 0)],
        PDict [(''time'', PInt 2000),
               (''image'', PDict [(''name'', PStr ''b''), (''extname'', PStr ''.png'')])]])] ''slides''
       = Some (PList
       [PDict [(''image'', PDict [(''name'', PStr ''a''), (''extname'', PStr ''.png'')]),
               (''time'', PInt 0)],
        PDict [(''time'', PInt 2000),
               (''image'', PDict [(''name'', PStr ''b''), (''extname'', PStr ''.png'')])]])
     \<and> list_all valid_slide
       [PDict [(''image'', PDict [(''name'', PStr ''a''), (''extname'', PStr ''.png'')]),
               (''time'', PInt 0)],
        PDict [(''time'', PInt 2000),
               (''image'', PDict [(''name'', PStr ''b''), (''extname'', PStr ''.png'')])]]"
    by (simp add: demo_env_def demo_manifest_def valid_slide_def)
  from parse_json_preserves[THEN mp, OF h] show ?thesis
    by (simp add: raw_time_def raw_name_def bindE_def numeral_2_eq_2)
qed

section \<open>The size aliases\<close>


section \<open>The playlist\<close>












section \<open>Downloading the slides\<close>

lemma download_save_file_fetched:
  "fetched (snd (download_save_file E url p t w)) = fetched w @ [url]"
  by (simp add: download_save_file_def bind_def requests_get_def raise_for_status_def
      write_file_def sleep_def raise_def ret_def split: response.splits)

lemma download_save_file_error:
  "fst (download_save_file E url p t w) = Inl e \<Longrightarrow> caught_by_except_Exception e"
  by (auto simp: download_save_file_def bind_def requests_get_def raise_for_status_def
      write_file_def sleep_def raise_def ret_def split: response.splits if_splits)

lemma fetch_slide_ok:
  "fst (fetch_slide E url p t w) = Inr ()
   \<and> fetched (snd (fetch_slide E url p t w)) = fetched w @ [url]"
proof -
  define w1 where "w1 = w\<lparr>stdout := stdout w @ [MsgDownloading p]\<rparr>"
  obtain r w2 where d: "download_save_file E url p t w1 = (r, w2)"
    by (cases "download_save_file E url p t w1")
  have f: "fetched w2 = fetched w @ [url]"
    using download_save_file_fetched[of E url p t w1] d by (simp add: w1_def)
  show ?thesis
  proof (cases r)
    case (Inl e)
    then have "caught_by_except_Exception e"
      using download_save_file_error[of E url p t w1 e] d by simp
    then show ?thesis using d f Inl
      by (simp add: fetch_slide_def bind_def print_def try_except_def w1_def)
  next
    case (Inr u)
    then show ?thesis using d f
      by (simp add: fetch_slide_def bind_def print_def try_except_def w1_def)
  qed
qed

lemma fetch_slide_logs:
  assumes "fst (download_save_file E url p t (snd (print (MsgDownloading p) w))) = Inl e"
  shows "stdout (snd (fetch_slide E url p t w)) = stdout w @ [MsgDownloading p, MsgSkipping e]"
proof -
  define w1 where "w1 = w\<lparr>stdout := stdout w @ [MsgDownloading p]\<rparr>"
  obtain r w2 where d: "download_save_file E url p t w1 = (r, w2)"
    by (cases "download_save_file E url p t w1")
  have r: "r = Inl e" using assms d by (simp add: print_def w1_def)
  have c: "caught_by_except_Exception e"
    using download_save_file_error[of E url p t w1 e] d r by simp
  have s: "stdout w2 = stdout w1"
    using d
    by (auto simp: download_save_file_def bind_def requests_get_def raise_for_status_def
      write_file_def sleep_def raise_def ret_def split: response.splits if_splits)
  show ?thesis using d r c s
    by (simp add: fetch_slide_def bind_def print_def try_except_def w1_def)
qed

lemma json_loop_attempts:
  "list_all (\<lambda>r. \<not> isl (json_slide_target base vid folder sz r)) rows \<Longrightarrow>
   fst (download_slides_json_loop E vid folder sz base wt rows w) = Inr ()
   \<and> fetched (snd (download_slides_json_loop E vid folder sz base wt rows w))
       = fetched w @ map (\<lambda>r. fst (projr (json_slide_target base vid folder sz r))) rows"
proof (induction rows arbitrary: w)
  case Nil
  then show ?case by (simp add: ret_def)
next
  case (Cons r rows)
  from Cons.prems obtain tg where tg: "json_slide_target base vid folder sz r = Inr tg"
    by (cases "json_slide_target base vid folder sz r") simp_all
  from Cons.prems have rest: "list_all (\<lambda>r. \<not> isl (json_slide_target base vid folder sz r)) rows"
    by simp
  obtain w1 where f: "fetch_slide E (fst tg) (snd tg) wt w = (Inr (), w1)"
    and f1: "fetched w1 = fetched w @ [fst tg]"
    using fetch_slide_ok[of E "fst tg" "snd tg" wt w]
    by (cases "fetch_slide E (fst tg) (snd tg) wt w") simp
  have step: "download_slides_json_loop E vid folder sz base wt (r # rows) w
      = download_slides_json_loop E vid folder sz base wt rows w1"
    using tg f by (simp add: bind_def lift_def)
  show ?case using Cons.IH[OF rest, of w1] step f1 tg by simp
qed

lemma xml_loop_attempts:
  "list_all (\<lambda>r. \<not> isl (xml_slide_target base vid folder sz r)) rows \<Longrightarrow>
   fst (download_slides_xml_loop E vid folder sz base wt rows w) = Inr ()
   \<and> fetched (snd (download_slides_xml_loop E vid folder sz base wt rows w))
       = fetched w @ map (\<lambda>r. fst (projr (xml_slide_target base vid folder sz r))) rows"
proof (induction rows arbitrary: w)
  case Nil
  then show ?case by (simp add: ret_def)
next
  case (Cons r rows)
  from Cons.prems obtain tg where tg: "xml_slide_target base vid folder sz r = Inr tg"
    by (cases "xml_slide_target base vid folder sz r") simp_all
  from Cons.prems have rest: "list_all (\<lambda>r. \<not> isl (xml_slide_target base vid folder sz r)) rows"
    by simp
  obtain w1 where f: "fetch_slide E (fst tg) (snd tg) wt w = (Inr (), w1)"
    and f1: "fetched w1 = fetched w @ [fst tg]"
    using fetch_slide_ok[of E "fst tg" "snd tg" wt w]
    by (cases "fetch_slide E (fst tg) (snd tg) wt w") simp
  have step: "download_slides_xml_loop E vid folder sz base wt (r # rows) w
      = download_slides_xml_loop E vid folder sz base wt rows w1"
    using tg f by (simp add: bind_def lift_def)
  show ?case using Cons.IH[OF rest, of w1] step f1 tg by simp
qed

text \<open>
  Claim C8. Whenever the URL and the path of every slide can be built, the loop over the
  slides ends normally whatever the downloads do, and it has made one request per slide,
  in order: no failed download stops the later ones or the run. This holds for the loop
  of either schema. A download that fails is caught where it is called, and its error is
  printed right after the line that announced the download.
\<close>

theorem slide_failure_is_skipped:
  "(list_all (\<lambda>r. \<not> isl (json_slide_target base vid (folder_of vid vname) sz r)) rows \<longrightarrow>
      fst (download_slides_json E vid vname rows sz base wt w) = Inr ()
      \<and> fetched (snd (download_slides_json E vid vname rows sz base wt w))
          = fetched w
            @ map (\<lambda>r. fst (projr (json_slide_target base vid (folder_of vid vname) sz r))) rows)
   \<and> (list_all (\<lambda>r. \<not> isl (xml_slide_target base vid (folder_of vid vname) sz r)) rows \<longrightarrow>
      fst (download_slides_xml E vid vname rows sz base wt w) = Inr ()
      \<and> fetched (snd (download_slides_xml E vid vname rows sz base wt w))
          = fetched w
            @ map (\<lambda>r. fst (projr (xml_slide_target base vid (folder_of vid vname) sz r))) rows)
   \<and> (fst (download_save_file E url p wt (snd (print (MsgDownloading p) w))) = Inl e \<longrightarrow>
      fst (fetch_slide E url p wt w) = Inr ()
      \<and> stdout (snd (fetch_slide E url p wt w)) = stdout w @ [MsgDownloading p, MsgSkipping e])"
  using json_loop_attempts xml_loop_attempts fetch_slide_ok fetch_slide_logs
  by (simp add: download_slides_json_def download_slides_xml_def)


lemma json_target_demo:
  "json_slide_target ''https://img'' ''1'' (folder_of ''1'' ''n'') (PInt 1080)
     (json_row (PStr ''a'') (PStr ''.png'') (PInt 0))
     = Inr (''https://img/1/slides/a.png?h=1080&f=webp&s=lambda&accelerate_s3=1'',
            ''1-n/a-1080-0.png'')"
  "json_slide_target ''https://img'' ''1'' (folder_of ''1'' ''n'') (PInt 1080)
     (json_row (PStr ''b'') (PStr ''.png'') (PInt 2000))
     = Inr (''https://img/1/slides/b.png?h=1080&f=webp&s=lambda&accelerate_s3=1'',
            ''1-n/b-1080-2000.png'')"
  by (simp_all add: json_slide_target_def json_img_url_def json_file_path_def json_row_def
      row_getitem_def bindE_def brace_free_def folder_of_def str_int_def digit_char_def)

lemma xml_target_demo:
  "xml_slide_target ''https://old'' ''2'' (folder_of ''2'' ''n'') (PStr ''big'')
     [(''orderId'', PStr ''0''), (''timeSec'', PStr ''2''), (''time'', PStr ''2000''),
      (''slideName'', PStr ''s'')]
     = Inr (''https://old/2/slides/big/s.jpg'', ''2-n/2000-s-big.jpg'')"
  by (simp add: xml_slide_target_def xml_img_url_def xml_file_path_def
      row_getitem_def bindE_def brace_free_def folder_of_def)

text \<open>
  C8 on video 1, whose first image answers 404: both images are requested, and the
  failure of the first is printed. The row of video 2 is requested from the old CDN.
\<close>

theorem slide_failure_is_skipped_witness:
  "fst (download_slides_json demo_env ''1'' ''n''
          [json_row (PStr ''a'') (PStr ''.png'') (PInt 0),
           json_row (PStr ''b'') (PStr ''.png'') (PInt 2000)]
          (PInt 1080) ''https://img'' 0 (folder_world ''1-n'')) = Inr ()
   \<and> fetched (snd (download_slides_json demo_env ''1'' ''n''
          [json_row (PStr ''a'') (PStr ''.png'') (PInt 0),
           json_row (PStr ''b'') (PStr ''.png'') (PInt 2000)]
          (PInt 1080) ''https://img'' 0 (folder_world ''1-n'')))
       = [''https://img/1/slides/a.png?h=1080&f=webp&s=lambda&accelerate_s3=1'',
          ''https://img/1/slides/b.png?h=1080&f=webp&s=lambda&accelerate_s3=1'']
   \<and> fetched (snd (download_slides_xml demo_env ''2'' ''n''
          [[(''orderId'', PStr ''0''), (''timeSec'', PStr ''2''), (''time'', PStr ''2000''),
            (''slideName'', PStr ''s'')]]
          (PStr ''big'') ''https://old'' 0 (folder_world ''2-n'')))
       = [''https://old/2/slides/big/s.jpg'']
   \<and> stdout (snd (fetch_slide demo_env
          ''https://img/1/slides/a.png?h=1080&f=webp&s=lambda&accelerate_s3=1''
          ''1-n/a-1080-0.png'' 0 (folder_world ''1-n'')))
       = [MsgDownloading ''1-n/a-1080-0.png'', MsgSkipping (HTTPError 404)]"
proof -
  have h1: "list_all (\<lambda>r. \<not> isl (json_slide_target ''https://img'' ''1'' (folder_of ''1'' ''n'')
          (PInt 1080) r))
       [json_row (PStr ''a'') (PStr ''.png'') (PInt 0),
        json_row (PStr ''b'') (PStr ''.png'') (PInt 2000)]"
    by (simp add: json_target_demo)
  have h2: "list_all (\<lambda>r. \<not> isl (xml_slide_target ''https://old'' ''2'' (folder_of ''2'' ''n'')
          (PStr ''big'') r))
       [[(''orderId'', PStr ''0''), (''timeSec'', PStr ''2''), (''time'', PStr ''2000''),
         (''slideName'', PStr ''s'')]]"
    by (simp add: xml_target_demo)
  have h3: "fst (download_save_file demo_env
          ''https://img/1/slides/a.png?h=1080&f=webp&s=lambda&accelerate_s3=1''
          ''1-n/a-1080-0.png'' 0
          (snd (print (MsgDownloading ''1-n/a-1080-0.png'') (folder_world ''1-n''))))
        = Inl (HTTPError 404)"
    by (simp add: download_save_file_def bind_def requests_get_def raise_for_status_def
        raise_def demo_env_def demo_net_def print_def)
  have s0: "stdout (folder_world ''1-n'') = []" "fetched (folder_world ''1-n'') = []"
    "fetched (folder_world ''2-n'') = []"
    by (simp_all add: folder_world_def empty_world_def)
  note a = slide_failure_is_skipped[of "''https://img''" "''1''" "''n''" "PInt 1080"
      "[json_row (PStr ''a'') (PStr ''.png'') (PInt 0),
        json_row (PStr ''b'') (PStr ''.png'') (PInt 2000)]"
      demo_env 0 "folder_world ''1-n''"
      "''https://img/1/slides/a.png?h=1080&f=webp&s=lambda&accelerate_s3=1''"
      "''1-n/a-1080-0.png''" "HTTPError 404"]
  note b = slide_failure_is_skipped[of "''https://old''" "''2''" "''n''" "PStr ''big''"
      "[[(''orderId'', PStr ''0''), (''timeSec'', PStr ''2''), (''time'', PStr ''2000''),
         (''slideName'', PStr ''s'')]]"
      demo_env 0 "folder_world ''2-n''"]
  from a[THEN conjunct1, THEN mp, OF h1]
       b[THEN conjunct2, THEN conjunct1, THEN mp, OF h2]
       a[THEN conjunct2, THEN conjunct2, THEN mp, OF h3]
  show ?thesis by (simp add: json_target_demo xml_target_demo s0)
qed

section \<open>The fallback to the XML manifest\<close>



























section \<open>File names in the playlist and on disk; downloads made twice\<close>

text \<open>
  For a row of the XML manifest the playlist would name the file the download wrote,
  relative to the folder that holds both.
\<close>

lemma xml_names_agree:
  "xml_file_path folder row sz = map_sum id (\<lambda>p. folder @ ''/'' @ p) (concat_file_path row sz)"
  by (simp add: xml_file_path_def concat_file_path_def bindE_def split: sum.splits)

text \<open>Video 1: the manifest is fetched, then the loop over its two slides runs.\<close>

lemma demo_info:
  "download_slides_info demo_env ''https://meta'' ''https://meta'' ''1'' ''n'' (1 / 5) empty_world
    = (Inr (JsonInfo [json_row (PStr ''a'') (PStr ''.png'') (PInt 0),
                      json_row (PStr ''b'') (PStr ''.png'') (PInt 2000)]),
       (folder_world ''1-n'')
         \<lparr>fs := (fs (folder_world ''1-n''))(''1-n/slides.json'' \<mapsto> File ''J''),
          fetched := [''https://meta/1/v6/slides.json''],
          stdout := [MsgDownloading ''1-n/slides.json'']\<rparr>)"
  by (simp add: download_slides_info_def prepare_folder_def json_path_def
        download_slides_info_json_def Let_def bind_def ret_def print_def lift_def
        try_except_def mkdir_def path_isfile_def
        download_save_file_def requests_get_def raise_for_status_def raise_def
        write_file_def sleep_def read_file_def parent_ok_def dirname_def
        path_exists_def folder_of_def folder_world_def empty_world_def demo_env_def
        demo_net_def demo_manifest_def parse_json_def slide_entry_def bindE_def json_row_def)

lemma demo_slides:
  "download_slides_json demo_env ''1'' ''n''
      [json_row (PStr ''a'') (PStr ''.png'') (PInt 0),
       json_row (PStr ''b'') (PStr ''.png'') (PInt 2000)]
      (PInt 1080) ''https://img'' (1 / 5) world_after_info
    = (Inr (), world_after_slides)"
  by (simp add: download_slides_json_def json_slide_target_def json_img_url_def
        json_file_path_def json_row_def row_getitem_def bindE_def brace_free_def
        str_int_def digit_char_def fetch_slide_def try_except_def
        bind_def ret_def print_def lift_def
        download_save_file_def requests_get_def raise_for_status_def raise_def
        write_file_def sleep_def parent_ok_def dirname_def
        folder_of_def folder_world_def empty_world_def demo_env_def
        demo_net_def world_after_info_def world_after_slides_def)

lemma demo_playlist:
  "create_ffmpeg_concat_file ''1'' ''n''
      (enumerate 0 [json_row (PStr ''a'') (PStr ''.png'') (PInt 0),
                    json_row (PStr ''b'') (PStr ''.png'') (PInt 2000)])
      (PInt 1080) world_after_slides
    = (Inr (), world_after_slides
         \<lparr>fs := (fs world_after_slides)(''1-n/ffmpeg_concat.txt'' \<mapsto> File
            (''file '0-a-1080.jpg'' @ [CHR 0x27, CHR 0x0A]
             @ ''duration 2'' @ [CHR 0x0A]
             @ ''file '2000-b-1080.jpg'' @ [CHR 0x27, CHR 0x0A]
             @ ''duration 30'' @ [CHR 0x0A]
             @ ''file '2000-b-1080.jpg'' @ [CHR 0x27, CHR 0x0A]))\<rparr>)"
  by (simp add: create_ffmpeg_concat_file_def Let_def open_append_def append_file_def
        row_time_sec_def concat_file_path_def json_row_def row_getitem_def bindE_def
        str_int_def digit_char_def trunc_def duration_line_def file_line_def
        bind_def ret_def lift_def path_exists_def parent_ok_def dirname_def
        folder_of_def folder_world_def empty_world_def
        world_after_info_def world_after_slides_def)

text \<open>
  Claim C1, at the point where the code breaks it, with the same size value 1080 given
  to both functions. \<^verbatim>\<open>download_slides_json\<close> writes the image of slide \<^verbatim>\<open>b\<close> to
  \<^verbatim>\<open>1-n/b-1080-2000.png\<close>: name, size, time, extension. On the world it leaves,
  \<^verbatim>\<open>create_ffmpeg_concat_file\<close> writes a playlist into the same folder that names
  \<^verbatim>\<open>2000-b-1080.jpg\<close>: time, name, size, always \<^verbatim>\<open>.jpg\<close>. No such file exists, and
  the two paths of the slide are not equal.
\<close>

theorem playlist_names_differ_from_downloads:
  "download_slides_json demo_env ''1'' ''n''
      [json_row (PStr ''a'') (PStr ''.png'') (PInt 0),
       json_row (PStr ''b'') (PStr ''.png'') (PInt 2000)]
      (PInt 1080) ''https://img'' (1 / 5) world_after_info = (Inr (), world_after_slides)
   \<and> json_file_path (folder_of ''1'' ''n'') (json_row (PStr ''b'') (PStr ''.png'') (PInt 2000))
        (PInt 1080) = Inr ''1-n/b-1080-2000.png''
   \<and> fs world_after_slides ''1-n/b-1080-2000.png'' = Some (File ''B'')
   \<and> concat_file_path (json_row (PStr ''b'') (PStr ''.png'') (PInt 2000)) (PInt 1080)
        = Inr ''2000-b-1080.jpg''
   \<and> fst (create_ffmpeg_concat_file ''1'' ''n''
          (enumerate 0 [json_row (PStr ''a'') (PStr ''.png'') (PInt 0),
                        json_row (PStr ''b'') (PStr ''.png'') (PInt 2000)])
          (PInt 1080) world_after_slides) = Inr ()
   \<and> file_lines (snd (create_ffmpeg_concat_file ''1'' ''n''
          (enumerate 0 [json_row (PStr ''a'') (PStr ''.png'') (PInt 0),
                        json_row (PStr ''b'') (PStr ''.png'') (PInt 2000)])
          (PInt 1080) world_after_slides)) ''1-n/ffmpeg_concat.txt''
        = [''file '0-a-1080.jpg'' @ [CHR 0x27],
           ''duration 2'',
           ''file '2000-b-1080.jpg'' @ [CHR 0x27],
           ''duration 30'',
           ''file '2000-b-1080.jpg'' @ [CHR 0x27]]
   \<and> fs (snd (create_ffmpeg_concat_file ''1'' ''n''
          (enumerate 0 [json_row (PStr ''a'') (PStr ''.png'') (PInt 0),
                        json_row (PStr ''b'') (PStr ''.png'') (PInt 2000)])
          (PInt 1080) world_after_slides)) ''1-n/2000-b-1080.jpg'' = None
   \<and> fs (snd (create_ffmpeg_concat_file ''1'' ''n''
          (enumerate 0 [json_row (PStr ''a'') (PStr ''.png'') (PInt 0),
                        json_row (PStr ''b'') (PStr ''.png'') (PInt 2000)])
          (PInt 1080) world_after_slides)) ''1-n/b-1080-2000.png'' = Some (File ''B'')"
  unfolding demo_playlist demo_slides
  by (simp add: json_file_path_def concat_file_path_def json_row_def row_getitem_def
      bindE_def str_int_def digit_char_def folder_of_def file_lines_def
      world_after_slides_def world_after_info_def folder_world_def empty_world_def)

text \<open>
  Claim C2, at the point where the code breaks it. After the loop over the slides of
  video 1 the image of slide \<^verbatim>\<open>b\<close> is on disk; running the loop for that slide again
  requests the same URL once more. The manifest, which is on disk too, is not requested
  again: only the two metadata fetchers look for the file first.
\<close>

theorem image_fetched_again:
  "download_slides_json demo_env ''1'' ''n''
      [json_row (PStr ''a'') (PStr ''.png'') (PInt 0),
       json_row (PStr ''b'') (PStr ''.png'') (PInt 2000)]
      (PInt 1080) ''https://img'' (1 / 5) world_after_info = (Inr (), world_after_slides)
   \<and> path_exists world_after_slides ''1-n/b-1080-2000.png''
   \<and> fetched (snd (download_slides_json demo_env ''1'' ''n''
          [json_row (PStr ''b'') (PStr ''.png'') (PInt 2000)]
          (PInt 1080) ''https://img'' (1 / 5) world_after_slides))
       = fetched world_after_slides
         @ [''https://img/1/slides/b.png?h=1080&f=webp&s=lambda&accelerate_s3=1'']
   \<and> path_exists world_after_slides ''1-n/slides.json''
   \<and> fetched (snd (download_slides_info_json demo_env ''https://meta'' ''1'' ''1-n'' (1 / 5)
          world_after_slides))
       = fetched world_after_slides"
proof (intro conjI)
  show "download_slides_json demo_env ''1'' ''n''
      [json_row (PStr ''a'') (PStr ''.png'') (PInt 0),
       json_row (PStr ''b'') (PStr ''.png'') (PInt 2000)]
      (PInt 1080) ''https://img'' (1 / 5) world_after_info = (Inr (), world_after_slides)"
    by (rule demo_slides)
  show "path_exists world_after_slides ''1-n/b-1080-2000.png''"
    by (simp add: path_exists_def world_after_slides_def)
  show "path_exists world_after_slides ''1-n/slides.json''"
    by (simp add: path_exists_def world_after_slides_def world_after_info_def)
  show "fetched (snd (download_slides_json demo_env ''1'' ''n''
          [json_row (PStr ''b'') (PStr ''.png'') (PInt 2000)]
          (PInt 1080) ''https://img'' (1 / 5) world_after_slides))
       = fetched world_after_slides
         @ [''https://img/1/slides/b.png?h=1080&f=webp&s=lambda&accelerate_s3=1'']"
    by (simp add: download_slides_json_def json_slide_target_def json_img_url_def
        json_file_path_def json_row_def row_getitem_def bindE_def brace_free_def
        str_int_def digit_char_def fetch_slide_def try_except_def
        bind_def ret_def print_def lift_def
        download_save_file_def requests_get_def raise_for_status_def raise_def
        write_file_def sleep_def parent_ok_def dirname_def
        folder_of_def folder_world_def empty_world_def demo_env_def
        demo_net_def world_after_info_def world_after_slides_def)
  show "fetched (snd (download_slides_info_json demo_env ''https://meta'' ''1'' ''1-n'' (1 / 5)
          world_after_slides))
       = fetched world_after_slides"
    by (simp add: download_slides_info_json_def Let_def bind_def ret_def read_file_def
        path_exists_def world_after_slides_def world_after_info_def)
qed

section \<open>Times of the XML manifest\<close>

text \<open>
  A cell of a row of \<^verbatim>\<open>parse_xml\<close> whose element has a text is that text, never a
  number, so \<^verbatim>\<open>row['time']/1000\<close> raises on every row that has a \<^verbatim>\<open>time\<close>.
\<close>

lemma xml_row_has_no_seconds:
  assumes "xml_cell node ''time'' = PStr t"
  shows "row_time_sec (map (\<lambda>el. (el, xml_cell node el))
           [''orderId'', ''timeSec'', ''time'', ''slideName'']) = Inl TypeError"
  using assms by (simp add: row_time_sec_def row_getitem_def bindE_def)

lemma parse_xml_rows_have_no_seconds:
  assumes "xml_parse E f = Some xroot"
    and "list_all (\<lambda>node. xml_cell node ''time'' \<noteq> PNone) (children xroot)"
  shows "\<exists>rows. parse_xml E f [''orderId'', ''timeSec'', ''time'', ''slideName''] = Inr rows
     \<and> length rows = length (children xroot)
     \<and> list_all (\<lambda>row. row_time_sec row = Inl TypeError) rows"
proof -
  have c: "xml_cell node ''time'' \<noteq> PNone \<Longrightarrow> \<exists>t. xml_cell node ''time'' = PStr t" for node
    by (auto simp: xml_cell_def split: option.splits)
  have "list_all (\<lambda>row. row_time_sec row = Inl TypeError)
      (map (\<lambda>node. map (\<lambda>el. (el, xml_cell node el))
         [''orderId'', ''timeSec'', ''time'', ''slideName'']) (children xroot))"
    using assms(2) c xml_row_has_no_seconds
    by (simp only: list_all_iff set_map) blast
  then show ?thesis using assms(1) by (simp add: parse_xml_def)
qed

text \<open>
  Claim C3, at the point where the code breaks it. The XML manifest of video 2 has one
  slide with \<^verbatim>\<open>timeSec\<close> 2 and \<^verbatim>\<open>time\<close> 2000. Its row holds the two texts; the
  expression that should give the slide's time raises \<^verbatim>\<open>TypeError\<close>, and the playlist
  builder stops there, leaving an empty playlist. No timestamp is derived from
  \<^verbatim>\<open>timeSec\<close>.
\<close>

theorem xml_rows_raise_in_playlist:
  "parse_xml demo_env ''X'' [''orderId'', ''timeSec'', ''time'', ''slideName'']
     = Inr [[(''orderId'', PStr ''0''), (''timeSec'', PStr ''2''), (''time'', PStr ''2000''),
             (''slideName'', PStr ''s'')]]
   \<and> row_time_sec [(''orderId'', PStr ''0''), (''timeSec'', PStr ''2''),
                    (''time'', PStr ''2000''), (''slideName'', PStr ''s'')] = Inl TypeError
   \<and> create_ffmpeg_concat_file ''2'' ''n''
        (enumerate 0 [[(''orderId'', PStr ''0''), (''timeSec'', PStr ''2''),
                       (''time'', PStr ''2000''), (''slideName'', PStr ''s'')]])
        (PStr ''big'') (folder_world ''2-n'')
     = (Inl TypeError,
        (folder_world ''2-n'')\<lparr>fs := (fs (folder_world ''2-n''))(''2-n/ffmpeg_concat.txt'' \<mapsto> File [])\<rparr>)"
  by (simp add: parse_xml_def demo_env_def demo_xml_def xml_cell_def xml_find_def
      row_time_sec_def row_getitem_def bindE_def
      create_ffmpeg_concat_file_def Let_def open_append_def
      bind_def ret_def lift_def path_exists_def parent_ok_def dirname_def
      folder_of_def folder_world_def empty_world_def)

end
